theory Spec2Isabelle
  imports Complex_Main "HOL-Library.Multiset"
begin

section \<open>CFPS weather and NOTAM fetcher: the model\<close>

text \<open>
  The program is one Python script, \<^verbatim>\<open>CFPS_WEATHER_NOTAM.PY\<close>: the function
  \<^verbatim>\<open>get_cfps_data\<close> (lines 13 to 41) and the script body that builds the list of
  airport codes (lines 46 to 72) and processes it (lines 74 to 99). Each fragment is
  translated below, in the order of the source. Strings are ASCII strings; exceptions
  are values of \<open>py_error\<close> on the left of a sum.
\<close>

subsection \<open>Python values that come out of a JSON decoder\<close>

text \<open>
  A Python \<^verbatim>\<open>float\<close> is a finite (dyadic) rational, an infinity or NaN; the sign of
  zero is not kept, as \<^verbatim>\<open>0.0 == -0.0\<close>.
\<close>

datatype pyfloat = Finite rat | PosInf | NegInf | NaN

text \<open>
  The values \<^verbatim>\<open>json.loads\<close> returns: \<^verbatim>\<open>None\<close>, \<^verbatim>\<open>bool\<close>, \<^verbatim>\<open>int\<close>,
  \<^verbatim>\<open>float\<close>, \<^verbatim>\<open>str\<close>, \<^verbatim>\<open>list\<close> and \<^verbatim>\<open>dict\<close> with string keys. A dict is
  the list of its items in insertion order, each key once; a key is looked up with
  \<open>map_of\<close>.
\<close>

datatype json =
    JNull
  | JBool bool
  | JInt int
  | JFloat pyfloat
  | JStr string
  | JList "json list"
  | JDict "(string \<times> json) list"

text \<open>
  The exceptions the script can meet. \<open>KeyError\<close> carries the missing key and
  \<open>HTTPError\<close> the status code; \<open>RequestException\<close> stands for every failure of
  \<^verbatim>\<open>requests.get\<close> itself (no response was obtained).
\<close>

datatype py_error =
    RequestException
  | HTTPError nat
  | JSONDecodeError
  | KeyError string
  | TypeError
  | AttributeError

text \<open>\<^verbatim>\<open>x[k]\<close> with a string \<open>k\<close>: only a dict can be subscripted by a string.\<close>

fun subscript :: "json \<Rightarrow> string \<Rightarrow> py_error + json" where
  "subscript (JDict kvs) k =
     (case map_of kvs k of None \<Rightarrow> Inl (KeyError k) | Some v \<Rightarrow> Inr v)"
| "subscript _ k = Inl TypeError"

text \<open>
  \<^verbatim>\<open>for item in x\<close>: a list gives its elements, a dict its keys, a string its
  characters (each a string of length one); anything else is not iterable.
\<close>

fun py_iter :: "json \<Rightarrow> py_error + json list" where
  "py_iter (JList xs) = Inr xs"
| "py_iter (JDict kvs) = Inr (map (\<lambda>kv. JStr (fst kv)) kvs)"
| "py_iter (JStr s) = Inr (map (\<lambda>c. JStr [c]) s)"
| "py_iter _ = Inl TypeError"

text \<open>
  The keys of a Python dict are compared by \<^verbatim>\<open>==\<close> and hash, so \<^verbatim>\<open>True\<close>, \<^verbatim>\<open>1\<close>
  and \<^verbatim>\<open>1.0\<close> are one key. \<open>pykey\<close> is the normal form of a hashable value;
  lists and dicts are unhashable (\<open>None\<close>). NaN is one key: the decoder returns the
  same object for every NaN, and a dict finds a key that is the same object.
\<close>

datatype pykey = KNone | KNum pyfloat | KStr string

fun key_of :: "json \<Rightarrow> pykey option" where
  "key_of JNull = Some KNone"
| "key_of (JBool b) = Some (KNum (Finite (if b then 1 else 0)))"
| "key_of (JInt i) = Some (KNum (Finite (of_int i)))"
| "key_of (JFloat f) = Some (KNum f)"
| "key_of (JStr s) = Some (KStr s)"
| "key_of (JList xs) = None"
| "key_of (JDict kvs) = None"

subsection \<open>The query parameters (lines 14 to 29)\<close>

datatype param_value = Single string | Multi "string list"

definition url :: string where
  "url = ''https://plan.navcanada.ca/weather/api/alpha/''"

definition categories :: "string list" where
  "categories = [''sigmet'', ''airmet'', ''notam'', ''metar'', ''taf'', ''pirep'',
                 ''upperwind'', ''space_weather'']"

definition params :: "string \<Rightarrow> (string \<times> param_value) list" where
  "params icao =
     [(''site'', Single icao),
      (''alpha'', Multi categories),
      (''notam_choice'', Single ''default''),
      (''_'', Single ''1756244240291'')]"

text \<open>
  The loop of lines 23 to 29 over \<^verbatim>\<open>params.items()\<close>, with \<^verbatim>\<open>query_params\<close> as the
  accumulator: a list value appends one pair per element, any other value one pair.
\<close>

fun append_param :: "(string \<times> string) list \<Rightarrow> string \<times> param_value \<Rightarrow> (string \<times> string) list" where
  "append_param query_params (key, Multi vs) = query_params @ map (Pair key) vs"
| "append_param query_params (key, Single v) = query_params @ [(key, v)]"

fun build_query :: "(string \<times> param_value) list \<Rightarrow> (string \<times> string) list \<Rightarrow> (string \<times> string) list" where
  "build_query [] query_params = query_params"
| "build_query (p # ps) query_params = build_query ps (append_param query_params p)"

definition query_params :: "string \<Rightarrow> (string \<times> string) list" where
  "query_params icao = build_query (params icao) []"

subsection \<open>The request and the organizing loop (lines 31 to 41)\<close>

text \<open>
  The network is a parameter: the outcome of the \<open>n\<close>-th \<^verbatim>\<open>requests.get\<close> of a run, for
  the address and the query it sends. Either no response is obtained (the call raises) or
  a response with a status code and a body. The JSON decoder behind \<^verbatim>\<open>response.json()\<close>
  and \<^verbatim>\<open>json.loads\<close> is a parameter as well: \<open>None\<close> when it raises on the text.
\<close>

datatype http_outcome = NoResponse | Response nat string

type_synonym network = "nat \<Rightarrow> string \<Rightarrow> (string \<times> string) list \<Rightarrow> http_outcome"

type_synonym decoder = "string \<Rightarrow> json option"

text \<open>
  \<^verbatim>\<open>organized\<close>: a dict from the type to the list of its items, in insertion order.
\<close>

type_synonym organized = "(pykey \<times> json list) list"

text \<open>
  Lines 38 to 40 for one item: a type not yet in the dict gets an empty list, then the item
  is appended to the list of its type.
\<close>

definition add_item :: "organized \<Rightarrow> pykey \<Rightarrow> json \<Rightarrow> organized" where
  "add_item organized typ item =
     (let organized' = (if map_of organized typ = None then organized @ [(typ, [])] else organized)
      in map (\<lambda>kb. if fst kb = typ then (fst kb, snd kb @ [item]) else kb) organized')"

fun organize_loop :: "json list \<Rightarrow> organized \<Rightarrow> py_error + organized" where
  "organize_loop [] organized = Inr organized"
| "organize_loop (item # items) organized =
     (case subscript item ''type'' of
        Inl e \<Rightarrow> Inl e
      | Inr typ \<Rightarrow>
          (case key_of typ of
             None \<Rightarrow> Inl TypeError
           | Some k \<Rightarrow> organize_loop items (add_item organized k item)))"

text \<open>Lines 35 to 41: \<^verbatim>\<open>data["data"]\<close> is subscripted, iterated and bucketed.\<close>

definition organize :: "json \<Rightarrow> py_error + organized" where
  "organize data =
     (case subscript data ''data'' of
        Inl e \<Rightarrow> Inl e
      | Inr d \<Rightarrow>
          (case py_iter d of
             Inl e \<Rightarrow> Inl e
           | Inr items \<Rightarrow> organize_loop items []))"

text \<open>
  \<^verbatim>\<open>raise_for_status\<close> raises for a status code from 400 to 599.
\<close>

definition get_cfps_data :: "network \<Rightarrow> decoder \<Rightarrow> nat \<Rightarrow> string \<Rightarrow> py_error + organized" where
  "get_cfps_data net loads n icao =
     (case net n url (query_params icao) of
        NoResponse \<Rightarrow> Inl RequestException
      | Response status body \<Rightarrow>
          if 400 \<le> status \<and> status < 600 then Inl (HTTPError status)
          else (case loads body of
                  None \<Rightarrow> Inl JSONDecodeError
                | Some data \<Rightarrow> organize data))"

subsection \<open>Text extraction (lines 81 to 90)\<close>

definition newline :: string where
  "newline = [CHR 0x0A]"

text \<open>\<^verbatim>\<open>data.get(category, [])\<close> on the organized dict.\<close>

definition dict_get :: "organized \<Rightarrow> string \<Rightarrow> json list" where
  "dict_get data category = (case map_of data (KStr category) of None \<Rightarrow> [] | Some bucket \<Rightarrow> bucket)"

text \<open>The comprehension \<^verbatim>\<open>[m["text"] for m in bucket]\<close>: the first failing subscript raises.\<close>

fun text_fields :: "json list \<Rightarrow> py_error + json list" where
  "text_fields [] = Inr []"
| "text_fields (m # ms) =
     (case subscript m ''text'' of
        Inl e \<Rightarrow> Inl e
      | Inr t \<Rightarrow> (case text_fields ms of Inl e \<Rightarrow> Inl e | Inr ts \<Rightarrow> Inr (t # ts)))"

text \<open>\<^verbatim>\<open>sep.join(xs)\<close> on strings; on a list with an item that is no string it raises.\<close>

fun join :: "string \<Rightarrow> string list \<Rightarrow> string" where
  "join sep [] = []"
| "join sep [s] = s"
| "join sep (s # t # ss) = s @ sep @ join sep (t # ss)"

fun str_items :: "json list \<Rightarrow> string list option" where
  "str_items [] = Some []"
| "str_items (JStr s # xs) = (case str_items xs of None \<Rightarrow> None | Some ss \<Rightarrow> Some (s # ss))"
| "str_items (_ # xs) = None"

definition py_join :: "string \<Rightarrow> json list \<Rightarrow> py_error + string" where
  "py_join sep xs = (case str_items xs of None \<Rightarrow> Inl TypeError | Some ss \<Rightarrow> Inr (join sep ss))"

text \<open>Lines 81 and 82, for \<open>metar\<close> and \<open>taf\<close>.\<close>

definition category_text :: "organized \<Rightarrow> string \<Rightarrow> py_error + string" where
  "category_text data category =
     (case text_fields (dict_get data category) of
        Inl e \<Rightarrow> Inl e
      | Inr ts \<Rightarrow> py_join newline ts)"

text \<open>\<^verbatim>\<open>json.loads(x)\<close>: a value that is no string is a \<^verbatim>\<open>TypeError\<close>.\<close>

fun json_loads :: "decoder \<Rightarrow> json \<Rightarrow> py_error + json" where
  "json_loads loads (JStr s) = (case loads s of None \<Rightarrow> Inl JSONDecodeError | Some v \<Rightarrow> Inr v)"
| "json_loads loads _ = Inl TypeError"

text \<open>\<^verbatim>\<open>x.get(k, d)\<close>: only a dict has the method.\<close>

fun py_get :: "json \<Rightarrow> string \<Rightarrow> json \<Rightarrow> py_error + json" where
  "py_get (JDict kvs) k d = Inr (case map_of kvs k of None \<Rightarrow> d | Some v \<Rightarrow> v)"
| "py_get _ k d = Inl AttributeError"

text \<open>The body of the inner \<^verbatim>\<open>try\<close> (lines 86 and 87): the value appended to \<^verbatim>\<open>notams\<close>.\<close>

definition notam_try :: "decoder \<Rightarrow> json \<Rightarrow> py_error + json" where
  "notam_try loads n =
     (case subscript n ''text'' of
        Inl e \<Rightarrow> Inl e
      | Inr t \<Rightarrow>
          (case json_loads loads t of
             Inl e \<Rightarrow> Inl e
           | Inr notam_json \<Rightarrow> py_get notam_json ''raw'' (JStr [])))"

text \<open>
  Lines 85 to 89: the bare \<^verbatim>\<open>except\<close> catches whatever the body raised and appends
  \<^verbatim>\<open>n["text"]\<close>, which raises again when the record has no \<open>text\<close>.
\<close>

definition notam_entry :: "decoder \<Rightarrow> json \<Rightarrow> py_error + json" where
  "notam_entry loads n =
     (case notam_try loads n of
        Inr v \<Rightarrow> Inr v
      | Inl _ \<Rightarrow> subscript n ''text'')"

fun notam_loop :: "decoder \<Rightarrow> json list \<Rightarrow> json list \<Rightarrow> py_error + json list" where
  "notam_loop loads [] notams = Inr notams"
| "notam_loop loads (n # ns) notams =
     (case notam_entry loads n of
        Inl e \<Rightarrow> Inl e
      | Inr v \<Rightarrow> notam_loop loads ns (notams @ [v]))"

text \<open>Lines 83 to 90.\<close>

definition notam_text :: "decoder \<Rightarrow> organized \<Rightarrow> py_error + string" where
  "notam_text loads data =
     (case notam_loop loads (dict_get data ''notam'') [] of
        Inl e \<Rightarrow> Inl e
      | Inr notams \<Rightarrow> py_join (newline @ newline) notams)"

subsection \<open>One airport code and the batch (lines 76 to 99)\<close>

record result_row =
  ICAO :: string
  METAR :: string
  TAF :: string
  NOTAMs :: string

text \<open>The body of the outer \<^verbatim>\<open>try\<close> (lines 80 to 97) for the \<open>n\<close>-th code of the run.\<close>

definition process_icao :: "network \<Rightarrow> decoder \<Rightarrow> nat \<Rightarrow> string \<Rightarrow> py_error + result_row" where
  "process_icao net loads n icao =
     (case get_cfps_data net loads n icao of
        Inl e \<Rightarrow> Inl e
      | Inr data \<Rightarrow>
     (case category_text data ''metar'' of
        Inl e \<Rightarrow> Inl e
      | Inr metar \<Rightarrow>
     (case category_text data ''taf'' of
        Inl e \<Rightarrow> Inl e
      | Inr taf \<Rightarrow>
     (case notam_text loads data of
        Inl e \<Rightarrow> Inl e
      | Inr notams \<Rightarrow>
          Inr \<lparr>ICAO = icao, METAR = metar, TAF = taf, NOTAMs = notams\<rparr>))))"

text \<open>
  The state of the loop of line 78: the rows appended to \<^verbatim>\<open>results\<close> and the warnings
  shown by \<^verbatim>\<open>st.warning\<close>, each the code and the exception of its message.
\<close>

record batch_state =
  results :: "result_row list"
  warnings :: "(string \<times> py_error) list"

fun process_batch :: "network \<Rightarrow> decoder \<Rightarrow> nat \<Rightarrow> string list \<Rightarrow> batch_state \<Rightarrow> batch_state" where
  "process_batch net loads n [] st = st"
| "process_batch net loads n (icao # icao_list) st =
     process_batch net loads (Suc n) icao_list
       (case process_icao net loads n icao of
          Inr row \<Rightarrow> st\<lparr>results := results st @ [row]\<rparr>
        | Inl e \<Rightarrow> st\<lparr>warnings := warnings st @ [(icao, e)]\<rparr>)"

subsection \<open>The list of codes (lines 46 to 72)\<close>

text \<open>\<^verbatim>\<open>str.upper\<close> and \<^verbatim>\<open>str.strip\<close> on ASCII strings.\<close>

definition ascii_lowercase :: string where
  "ascii_lowercase = ''abcdefghijklmnopqrstuvwxyz''"

definition ascii_uppercase :: string where
  "ascii_uppercase = ''ABCDEFGHIJKLMNOPQRSTUVWXYZ''"

definition upper_char :: "char \<Rightarrow> char" where
  "upper_char c = (case map_of (zip ascii_lowercase ascii_uppercase) c of None \<Rightarrow> c | Some u \<Rightarrow> u)"

definition upper :: "string \<Rightarrow> string" where
  "upper s = map upper_char s"

definition is_space :: "char \<Rightarrow> bool" where
  "is_space c = (let n = (of_char c :: nat) in (9 \<le> n \<and> n \<le> 13) \<or> (28 \<le> n \<and> n \<le> 32))"

definition strip :: "string \<Rightarrow> string" where
  "strip s = rev (dropWhile is_space (rev (dropWhile is_space s)))"

definition endswith :: "string \<Rightarrow> string \<Rightarrow> bool" where
  "endswith s suffix = (length suffix \<le> length s \<and> drop (length s - length suffix) s = suffix)"

text \<open>
  What pandas makes of the uploaded file is a parameter. A column is a column of text
  cells, each a string or missing (\<open>None\<close>), or a column that pandas holds with another
  type, on which the \<^verbatim>\<open>.str\<close> accessor raises. A reader returns a frame, the columns by
  name, or raises.
\<close>

datatype column = TextColumn "string option list" | OtherColumn

datatype read_result = ReadError | DataFrame "(string \<times> column) list"

record uploaded =
  file_name :: string
  read_csv :: read_result
  read_excel :: read_result

text \<open>Lines 63 to 66: the reader is chosen by the name of the file.\<close>

definition read_file :: "uploaded \<Rightarrow> read_result" where
  "read_file f = (if endswith (file_name f) ''.csv'' then read_csv f else read_excel f)"

text \<open>\<^verbatim>\<open>dropna()\<close> on a text column.\<close>

fun dropna :: "string option list \<Rightarrow> string list" where
  "dropna [] = []"
| "dropna (None # cells) = dropna cells"
| "dropna (Some s # cells) = s # dropna cells"

text \<open>\<^verbatim>\<open>df["ICAO"].dropna().str.upper().tolist()\<close> (line 68).\<close>

fun column_codes :: "column \<Rightarrow> py_error + string list" where
  "column_codes (TextColumn cells) = Inr (map upper (dropna cells))"
| "column_codes OtherColumn = Inl AttributeError"

text \<open>
  The two messages of \<^verbatim>\<open>st.error\<close>: line 70 (no column named ICAO) and line 72 (an
  exception while reading).
\<close>

datatype st_error = MissingICAOColumn | ErrorReadingFile

record code_input =
  icao_list :: "string list"
  errors :: "st_error list"

definition determine_icao_list :: "string \<Rightarrow> uploaded option \<Rightarrow> code_input" where
  "determine_icao_list text_input uploaded_file =
     (let icao_input = strip (upper text_input);
          direct = (if icao_input \<noteq> [] then [icao_input] else [])
      in case uploaded_file of
           None \<Rightarrow> \<lparr>icao_list = direct, errors = []\<rparr>
         | Some f \<Rightarrow>
             (case read_file f of
                ReadError \<Rightarrow> \<lparr>icao_list = direct, errors = [ErrorReadingFile]\<rparr>
              | DataFrame df \<Rightarrow>
                  (case map_of df ''ICAO'' of
                     None \<Rightarrow> \<lparr>icao_list = direct, errors = [MissingICAOColumn]\<rparr>
                   | Some col \<Rightarrow>
                       (case column_codes col of
                          Inl e \<Rightarrow> \<lparr>icao_list = direct, errors = [ErrorReadingFile]\<rparr>
                        | Inr codes \<Rightarrow> \<lparr>icao_list = direct @ codes, errors = []\<rparr>))))"

subsection \<open>A run of the script\<close>

text \<open>
  What a run shows: the errors, the warnings and, when the list of codes is not empty
  (line 74), the table of results.
\<close>

record page =
  shown_errors :: "st_error list"
  shown_warnings :: "(string \<times> py_error) list"
  table :: "result_row list option"

definition run :: "network \<Rightarrow> decoder \<Rightarrow> string \<Rightarrow> uploaded option \<Rightarrow> page" where
  "run net loads text_input uploaded_file =
     (let inp = determine_icao_list text_input uploaded_file
      in if icao_list inp \<noteq> [] then
           (let st = process_batch net loads 0 (icao_list inp) \<lparr>results = [], warnings = []\<rparr>
            in \<lparr>shown_errors = errors inp, shown_warnings = warnings st, table = Some (results st)\<rparr>)
         else \<lparr>shown_errors = errors inp, shown_warnings = [], table = None\<rparr>)"

subsection \<open>Auxiliary notions for the statements\<close>

text \<open>What one parameter contributes to the query.\<close>

fun pairs_of :: "string \<times> param_value \<Rightarrow> (string \<times> string) list" where
  "pairs_of (key, Multi vs) = map (Pair key) vs"
| "pairs_of (key, Single v) = [(key, v)]"

text \<open>The bucket of a key in the organized dict, empty when the key is absent.\<close>

definition bucket :: "organized \<Rightarrow> pykey \<Rightarrow> json list" where
  "bucket data k = (case map_of data k of None \<Rightarrow> [] | Some b \<Rightarrow> b)"

text \<open>The key that the \<open>type\<close> field of an item names, when the item has one that is hashable.\<close>

definition item_key :: "json \<Rightarrow> pykey option" where
  "item_key item = (case subscript item ''type'' of Inl e \<Rightarrow> None | Inr ty \<Rightarrow> key_of ty)"

text \<open>
  A well-formed response in the words of the specification: a list under the \<open>data\<close> key
  whose elements each carry a \<open>type\<close> field.
\<close>

fun carries_type :: "json \<Rightarrow> bool" where
  "carries_type (JDict fs) = (map_of fs ''type'' \<noteq> None)"
| "carries_type _ = False"

fun spec_well_formed :: "json \<Rightarrow> bool" where
  "spec_well_formed (JDict kvs) =
     (case map_of kvs ''data'' of Some (JList items) \<Rightarrow> list_all carries_type items | _ \<Rightarrow> False)"
| "spec_well_formed _ = False"

text \<open>
  The shape the code accepts: an object whose \<open>data\<close> is a list of objects, each with a
  \<open>type\<close> that is a string, a number, a boolean or null; or whose \<open>data\<close> is an empty
  object or an empty string, over which the loop does not run.
\<close>

fun hashable :: "json \<Rightarrow> bool" where
  "hashable (JList xs) = False"
| "hashable (JDict kvs) = False"
| "hashable _ = True"

fun typed_item :: "json \<Rightarrow> bool" where
  "typed_item (JDict fs) = (case map_of fs ''type'' of None \<Rightarrow> False | Some t \<Rightarrow> hashable t)"
| "typed_item _ = False"

fun accepted_data :: "json \<Rightarrow> bool" where
  "accepted_data (JList items) = list_all typed_item items"
| "accepted_data (JDict kvs) = (kvs = [])"
| "accepted_data (JStr s) = (s = [])"
| "accepted_data _ = False"

fun accepted_shape :: "json \<Rightarrow> bool" where
  "accepted_shape (JDict kvs) = (case map_of kvs ''data'' of None \<Rightarrow> False | Some d \<Rightarrow> accepted_data d)"
| "accepted_shape _ = False"

definition status_failure :: "nat \<Rightarrow> bool" where
  "status_failure status = (400 \<le> status \<and> status < 600)"

text \<open>
  When a fetch fails, in the words of the specification, for a response with a status and a
  decoded body (\<open>None\<close> when the body is not valid JSON): the status indicates failure,
  or the body is not valid JSON or is not well-formed.
\<close>

definition spec_fetch_failure :: "nat \<Rightarrow> json option \<Rightarrow> bool" where
  "spec_fetch_failure status decoded =
     (status_failure status \<or> (case decoded of None \<Rightarrow> True | Some data \<Rightarrow> \<not> spec_well_formed data))"

text \<open>When a fetch fails in the code, for the outcome of the request.\<close>

fun fetch_failure :: "decoder \<Rightarrow> http_outcome \<Rightarrow> bool" where
  "fetch_failure loads NoResponse = True"
| "fetch_failure loads (Response status body) =
     (status_failure status \<or> (case loads body of None \<Rightarrow> True | Some data \<Rightarrow> \<not> accepted_shape data))"

fun is_object :: "json \<Rightarrow> bool" where
  "is_object (JDict kvs) = True"
| "is_object _ = False"

text \<open>The value of the \<open>text\<close> field of a record, when the record is an object that has one.\<close>

fun text_of :: "json \<Rightarrow> json option" where
  "text_of (JDict fs) = map_of fs ''text''"
| "text_of _ = None"

text \<open>
  The entry of a NOTAM record for display, from the value of its \<open>text\<close>: for a string
  that decodes to an object, the value of \<open>raw\<close>, or the empty string when the object has
  no \<open>raw\<close>; for a string that does not decode, or decodes to a value that is no object,
  the string itself; for a value that is no string, that value.
\<close>

fun entry_of :: "decoder \<Rightarrow> json \<Rightarrow> json" where
  "entry_of loads (JStr t) =
     (case loads t of
        None \<Rightarrow> JStr t
      | Some (JDict kvs) \<Rightarrow> (case map_of kvs ''raw'' of None \<Rightarrow> JStr [] | Some r \<Rightarrow> r)
      | Some v \<Rightarrow> JStr t)"
| "entry_of loads v = v"

fun is_str :: "json \<Rightarrow> bool" where
  "is_str (JStr s) = True"
| "is_str _ = False"

fun str_of :: "json \<Rightarrow> string" where
  "str_of (JStr s) = s"
| "str_of _ = []"

text \<open>The rows and the warnings that the outcome of one code contributes.\<close>

fun rows_of :: "py_error + result_row \<Rightarrow> result_row list" where
  "rows_of (Inr row) = [row]"
| "rows_of (Inl e) = []"

fun warnings_of :: "string \<Rightarrow> py_error + result_row \<Rightarrow> (string \<times> py_error) list" where
  "warnings_of icao (Inr row) = []"
| "warnings_of icao (Inl e) = [(icao, e)]"

text \<open>The code that the direct input contributes: none when it is empty after stripping.\<close>

definition direct_codes :: "string \<Rightarrow> string list" where
  "direct_codes text_input = (if strip (upper text_input) = [] then [] else [strip (upper text_input)])"

subsection \<open>Example inputs\<close>

text \<open>
  A decoder for the examples: it agrees with \<^verbatim>\<open>json.loads\<close> on the JSON texts listed and
  raises on every other text; the examples give it only these texts and texts that are
  not JSON.
\<close>

definition example_decoder :: decoder where
  \<open>example_decoder = map_of
     [(''{"raw":"A1234/23 RWY CLOSED"}'', JDict [(''raw'', JStr ''A1234/23 RWY CLOSED'')]),
      (''{}'', JDict []),
      (''{"id":7}'', JDict [(''id'', JInt 7)]),
      (''[1]'', JList [JInt 1]),
      (''"RWY"'', JStr ''RWY''),
      (''17'', JInt 17),
      (''{"raw":5}'', JDict [(''raw'', JInt 5)]),
      (''{"data":{}}'', JDict [(''data'', JDict [])]),
      (''{"data":[{"type":[]}]}'', JDict [(''data'', JList [JDict [(''type'', JList [])]])]),
      (''{"data":[{"type":"metar","text":"M1"},{"type":"taf","text":"T1"},{"type":"metar","text":"M2"},{"type":"notam","text":"N1"},{"type":"notam","text":"N2"}]}'',
       JDict [(''data'', JList
         [JDict [(''type'', JStr ''metar''), (''text'', JStr ''M1'')],
          JDict [(''type'', JStr ''taf''), (''text'', JStr ''T1'')],
          JDict [(''type'', JStr ''metar''), (''text'', JStr ''M2'')],
          JDict [(''type'', JStr ''notam''), (''text'', JStr ''N1'')],
          JDict [(''type'', JStr ''notam''), (''text'', JStr ''N2'')]])])]\<close>

text \<open>The decoded example response, named for the statements below.\<close>

definition example_items :: "json list" where
  "example_items =
     [JDict [(''type'', JStr ''metar''), (''text'', JStr ''M1'')],
      JDict [(''type'', JStr ''taf''), (''text'', JStr ''T1'')],
      JDict [(''type'', JStr ''metar''), (''text'', JStr ''M2'')],
      JDict [(''type'', JStr ''notam''), (''text'', JStr ''N1'')],
      JDict [(''type'', JStr ''notam''), (''text'', JStr ''N2'')]]"

text \<open>The example response organized, and a dict with two NOTAM records only.\<close>

definition example_organized :: organized where
  "example_organized =
     [(KStr ''metar'', [JDict [(''type'', JStr ''metar''), (''text'', JStr ''M1'')],
                        JDict [(''type'', JStr ''metar''), (''text'', JStr ''M2'')]]),
      (KStr ''taf'', [JDict [(''type'', JStr ''taf''), (''text'', JStr ''T1'')]]),
      (KStr ''notam'', [JDict [(''type'', JStr ''notam''), (''text'', JStr ''N1'')],
                        JDict [(''type'', JStr ''notam''), (''text'', JStr ''N2'')]])]"



text \<open>
  A network for the examples: the site \<open>CYYC\<close> answers 200 with the example response,
  \<open>CYEG\<close> answers 200 with an empty object under \<open>data\<close>, \<open>CYOW\<close> answers 200 with an
  item whose type is a list, and every other site answers 404.
\<close>

definition example_network :: network where
  \<open>example_network n u q =
     (if map_of q ''site'' = Some ''CYYC'' then
        Response 200 ''{"data":[{"type":"metar","text":"M1"},{"type":"taf","text":"T1"},{"type":"metar","text":"M2"},{"type":"notam","text":"N1"},{"type":"notam","text":"N2"}]}''
      else if map_of q ''site'' = Some ''CYEG'' then Response 200 ''{"data":{}}''
      else if map_of q ''site'' = Some ''CYOW'' then Response 200 ''{"data":[{"type":[]}]}''
      else Response 404 ''Not Found'')\<close>

text \<open>An uploaded CSV file with an \<open>ICAO\<close> column, and one without.\<close>

definition example_upload :: uploaded where
  "example_upload =
     \<lparr>file_name = ''codes.csv'',
      read_csv = DataFrame [(''Name'', TextColumn [Some ''Calgary'', Some ''Nowhere'', None, Some ''Calgary'']),
                            (''ICAO'', TextColumn [Some ''cyyc'', Some ''zzzz'', None, Some ''CYYC''])],
      read_excel = ReadError\<rparr>"

definition example_upload_no_column :: uploaded where
  "example_upload_no_column =
     \<lparr>file_name = ''codes.xlsx'',
      read_csv = ReadError,
      read_excel = DataFrame [(''Airport'', TextColumn [Some ''cyyc''])]\<rparr>"

section \<open>Properties\<close>

subsection \<open>The query\<close>

lemma append_param_pairs: "append_param q p = q @ pairs_of p"
  by (cases p rule: pairs_of.cases) simp_all

lemma build_query_concat: "build_query ps q = q @ concat (map pairs_of ps)"
  by (induction ps arbitrary: q) (simp_all add: append_param_pairs)

subsection \<open>The organizing loop\<close>

lemma map_of_update_bucket:
  "map_of (map (\<lambda>kb. if fst kb = k then (fst kb, snd kb @ [item]) else kb) xs) k'
     = (if k' = k then map_option (\<lambda>b. b @ [item]) (map_of xs k') else map_of xs k')"
  by (induction xs) auto

lemma map_of_add_item:
  "map_of (add_item org k item) k' = (if k' = k then Some (bucket org k @ [item]) else map_of org k')"
proof (cases "map_of org k")
  case None
  define xs where "xs = org @ [(k, [] :: json list)]"
  have a: "add_item org k item = map (\<lambda>kb. if fst kb = k then (fst kb, snd kb @ [item]) else kb) xs"
    using None by (simp add: add_item_def xs_def)
  have "map_of xs k' = (if k' = k then Some [] else map_of org k')"
    using None unfolding xs_def by (induction org) (auto split: if_splits)
  with None show ?thesis
    unfolding a by (cases "k' = k") (simp_all add: map_of_update_bucket bucket_def)
next
  case (Some b)
  then show ?thesis
    by (simp add: add_item_def map_of_update_bucket bucket_def)
qed

lemma bucket_add_item:
  "bucket (add_item org k item) k' = (if k' = k then bucket org k @ [item] else bucket org k')"
  by (simp add: bucket_def map_of_add_item)

lemma keys_add_item: "map fst (add_item org k item) = (if map_of org k = None then map fst org @ [k] else map fst org)"
  by (auto simp: add_item_def Let_def comp_def intro!: map_cong)

lemma distinct_add_item: "distinct (map fst org) \<Longrightarrow> distinct (map fst (add_item org k item))"
  by (auto simp: keys_add_item map_of_eq_None_iff)

lemma mset_update_bucket:
  "distinct (map fst xs) \<Longrightarrow> k \<in> fst ` set xs \<Longrightarrow>
   mset (concat (map snd (map (\<lambda>kb. if fst kb = k then (fst kb, snd kb @ [item]) else kb) xs)))
     = add_mset item (mset (concat (map snd xs)))"
proof (induction xs)
  case Nil then show ?case by simp
next
  case (Cons a xs)
  show ?case
  proof (cases "fst a = k")
    case True
    then have "k \<notin> fst ` set xs" using Cons.prems by auto
    then have "map (\<lambda>kb. if fst kb = k then (fst kb, snd kb @ [item]) else kb) xs = xs"
      by (induction xs) auto
    with True show ?thesis by simp
  next
    case False
    with Cons show ?thesis by auto
  qed
qed

lemma mset_add_item:
  "distinct (map fst org) \<Longrightarrow> mset (concat (map snd (add_item org k item))) = add_mset item (mset (concat (map snd org)))"
proof (cases "map_of org k")
  case None
  assume d: "distinct (map fst org)"
  from None have nk: "k \<notin> fst ` set org" by (simp add: map_of_eq_None_iff)
  then have d': "distinct (map fst (org @ [(k, [])]))" using d by auto
  have "k \<in> fst ` set (org @ [(k, [])])" by simp
  from mset_update_bucket[OF d' this, of item] None show ?thesis
    by (simp add: add_item_def)
next
  case (Some b)
  assume d: "distinct (map fst org)"
  from Some have "k \<in> fst ` set org" by (metis map_of_eq_None_iff option.distinct(1))
  from mset_update_bucket[OF d this, of item] Some show ?thesis
    by (simp add: add_item_def)
qed

lemma organize_loop_Inr:
  "list_all (\<lambda>item. item_key item \<noteq> None) items \<Longrightarrow> distinct (map fst org) \<Longrightarrow>
   \<exists>org'. organize_loop items org = Inr org' \<and> distinct (map fst org')
     \<and> (\<forall>k. bucket org' k = bucket org k @ filter (\<lambda>item. item_key item = Some k) items)
     \<and> mset (concat (map snd org')) = mset (concat (map snd org)) + mset items"
proof (induction items arbitrary: org)
  case Nil then show ?case by simp
next
  case (Cons item items)
  from Cons.prems(1) obtain ty k where t: "subscript item ''type'' = Inr ty" and k: "key_of ty = Some k"
    and ik: "item_key item = Some k"
    by (auto simp: item_key_def split: sum.splits)
  from Cons.prems have rest: "list_all (\<lambda>item. item_key item \<noteq> None) items" by simp
  from Cons.IH[OF rest distinct_add_item[OF Cons.prems(2)], of k item]
  obtain org' where o: "organize_loop items (add_item org k item) = Inr org'" "distinct (map fst org')"
     "\<forall>k'. bucket org' k' = bucket (add_item org k item) k' @ filter (\<lambda>item. item_key item = Some k') items"
     "mset (concat (map snd org')) = mset (concat (map snd (add_item org k item))) + mset items"
    by blast
  show ?case
    using o t k ik Cons.prems(2) by (simp add: bucket_add_item mset_add_item)
qed

lemma organize_loop_fails:
  "\<not> list_all (\<lambda>item. item_key item \<noteq> None) items \<Longrightarrow> \<exists>e. organize_loop items org = Inl e"
  by (induction items arbitrary: org) (auto simp: item_key_def split: sum.splits option.splits)

lemma typed_item_key: "typed_item item = (item_key item \<noteq> None)"
proof (cases item)
  case (JDict fs)
  show ?thesis
  proof (cases "map_of fs ''type''")
    case None
    with JDict show ?thesis by (simp add: item_key_def)
  next
    case (Some t)
    with JDict show ?thesis by (cases t) (simp_all add: item_key_def)
  qed
qed (simp_all add: item_key_def)

lemma list_all_typed: "list_all typed_item items = list_all (\<lambda>item. item_key item \<noteq> None) items"
  unfolding list_all_iff typed_item_key ..

lemma organize_list:
  assumes "map_of kvs ''data'' = Some (JList items)" and "list_all typed_item items"
  shows "\<exists>org. organize (JDict kvs) = Inr org \<and> distinct (map fst org)
           \<and> (\<forall>k. bucket org k = filter (\<lambda>item. item_key item = Some k) items)
           \<and> mset (concat (map snd org)) = mset items"
proof -
  from assms(2) have "list_all (\<lambda>item. item_key item \<noteq> None) items"
    by (simp add: list_all_typed)
  from organize_loop_Inr[OF this, of "[]"] assms(1) show ?thesis
    by (simp add: organize_def bucket_def)
qed

lemma accepted_data_iter:
  "accepted_data d = (case py_iter d of Inl e \<Rightarrow> False | Inr items \<Rightarrow> list_all typed_item items)"
proof (cases d)
  case (JStr s) then show ?thesis by (cases s) simp_all
next
  case (JDict kvs) then show ?thesis by (cases kvs) simp_all
qed simp_all

lemma organize_fails_iff: "(\<exists>e. organize data = Inl e) = (\<not> accepted_shape data)"
proof (cases data)
  case (JDict kvs)
  show ?thesis
  proof (cases "map_of kvs ''data''")
    case None
    with JDict show ?thesis by (simp add: organize_def)
  next
    case (Some d)
    show ?thesis
    proof (cases "py_iter d")
      case (Inl e)
      with JDict Some show ?thesis by (simp add: organize_def accepted_data_iter)
    next
      case (Inr items)
      show ?thesis
      proof (cases "list_all typed_item items")
        case True
        then have "list_all (\<lambda>item. item_key item \<noteq> None) items" by (simp add: list_all_typed)
        from organize_loop_Inr[OF this, of "[]"] obtain org where "organize_loop items [] = Inr org"
          by auto
        with JDict Some Inr True show ?thesis by (simp add: organize_def accepted_data_iter)
      next
        case False
        then have "\<not> list_all (\<lambda>item. item_key item \<noteq> None) items" by (simp add: list_all_typed)
        from organize_loop_fails[OF this, of "[]"] JDict Some Inr False show ?thesis
          by (auto simp: organize_def accepted_data_iter)
      qed
    qed
  qed
qed (simp_all add: organize_def)

lemma subscript_error_kind: "subscript x k = Inl e \<Longrightarrow> e = TypeError \<or> e = KeyError k"
  by (cases x) (auto split: option.splits)

lemma py_iter_error_kind: "py_iter x = Inl e \<Longrightarrow> e = TypeError"
  by (cases x) auto

lemma organize_loop_error_kind:
  "organize_loop items org = Inl e \<Longrightarrow> e = TypeError \<or> e = KeyError ''type''"
proof (induction items arbitrary: org)
  case Nil then show ?case by simp
next
  case (Cons item items)
  then show ?case
    by (auto split: sum.splits option.splits dest: subscript_error_kind)
qed

lemma organize_error_kind:
  "organize data = Inl e \<Longrightarrow> e = TypeError \<or> e = KeyError ''data'' \<or> e = KeyError ''type''"
  by (auto simp: organize_def split: sum.splits
           dest: subscript_error_kind py_iter_error_kind organize_loop_error_kind)

lemma organize_example_items:
  "organize (JDict [(''data'', JList example_items)]) = Inr example_organized"
  by (simp add: organize_def example_items_def example_organized_def add_item_def)

lemma get_cfps_data_fails_iff:
  "(\<exists>e. get_cfps_data net loads n icao = Inl e) = fetch_failure loads (net n url (query_params icao))"
proof (cases "net n url (query_params icao)")
  case NoResponse
  then show ?thesis by (simp add: get_cfps_data_def)
next
  case (Response status body)
  show ?thesis
  proof (cases "loads body")
    case None
    with Response show ?thesis by (simp add: get_cfps_data_def status_failure_def)
  next
    case (Some data)
    with Response organize_fails_iff[of data] show ?thesis
      by (auto simp: get_cfps_data_def status_failure_def)
  qed
qed

lemma get_cfps_data_error_kind:
  assumes "get_cfps_data net loads n icao = Inl e"
  shows "e = RequestException \<or> (\<exists>status. e = HTTPError status \<and> status_failure status)
           \<or> e = JSONDecodeError \<or> e = TypeError \<or> e = KeyError ''data'' \<or> e = KeyError ''type''"
proof (cases "net n url (query_params icao)")
  case NoResponse
  with assms show ?thesis by (simp add: get_cfps_data_def)
next
  case (Response status body)
  show ?thesis
  proof (cases "status_failure status")
    case True
    with Response assms show ?thesis by (auto simp: get_cfps_data_def status_failure_def)
  next
    case False
    show ?thesis
    proof (cases "loads body")
      case None
      with Response False assms show ?thesis by (auto simp: get_cfps_data_def status_failure_def)
    next
      case (Some data)
      with Response False assms have "organize data = Inl e"
        by (auto simp: get_cfps_data_def status_failure_def)
      from organize_error_kind[OF this] show ?thesis by blast
    qed
  qed
qed

subsection \<open>Text extraction\<close>

lemma notam_try_text:
  "subscript n ''text'' = Inr (JStr t) \<Longrightarrow>
   notam_try loads n =
     (case loads t of None \<Rightarrow> Inl JSONDecodeError | Some v \<Rightarrow> py_get v ''raw'' (JStr []))"
  by (simp add: notam_try_def split: option.splits)

lemma subscript_text_of:
  "subscript n ''text'' = (case text_of n of Some v \<Rightarrow> Inr v
     | None \<Rightarrow> (if is_object n then Inl (KeyError ''text'') else Inl TypeError))"
  by (cases n) (simp_all split: option.splits)

lemma notam_entry_entry_of:
  assumes "text_of n = Some v"
  shows "notam_entry loads n = Inr (entry_of loads v)"
proof -
  from assms have s: "subscript n ''text'' = Inr v" by (simp add: subscript_text_of)
  show ?thesis
  proof (cases v)
    case (JStr t)
    show ?thesis
    proof (cases "loads t")
      case None
      with s JStr show ?thesis by (simp add: notam_entry_def notam_try_def)
    next
      case (Some j)
      with s JStr show ?thesis
        by (cases j) (simp_all add: notam_entry_def notam_try_def split: option.splits)
    qed
  qed (use s in \<open>simp_all add: notam_entry_def notam_try_def\<close>)
qed

lemma notam_entry_no_text:
  assumes "text_of n = None"
  shows "notam_entry loads n = Inl (KeyError ''text'') \<or> notam_entry loads n = Inl TypeError"
  using assms by (simp add: notam_entry_def notam_try_def subscript_text_of)

lemma notam_loop_entries:
  "map text_of b = map Some vs \<Longrightarrow>
   notam_loop loads b notams = Inr (notams @ map (entry_of loads) vs)"
proof (induction b arbitrary: vs notams)
  case Nil then show ?case by simp
next
  case (Cons n b)
  then obtain v vs' where vs: "vs = v # vs'" "text_of n = Some v" "map text_of b = map Some vs'"
    by (cases vs) auto
  from Cons.IH[OF vs(3)] notam_entry_entry_of[OF vs(2)] vs(1) show ?case by simp
qed

lemma notam_loop_no_text:
  "\<not> list_all (\<lambda>n. text_of n \<noteq> None) b \<Longrightarrow>
   notam_loop loads b notams = Inl (KeyError ''text'') \<or> notam_loop loads b notams = Inl TypeError"
proof (induction b arbitrary: notams)
  case Nil then show ?case by simp
next
  case (Cons n b)
  show ?case
  proof (cases "text_of n")
    case None
    from notam_entry_no_text[OF None, of loads] show ?thesis by auto
  next
    case (Some v)
    with Cons.prems have "\<not> list_all (\<lambda>n. text_of n \<noteq> None) b" by simp
    from Cons.IH[OF this] notam_entry_entry_of[OF Some, of loads] show ?thesis by simp
  qed
qed

lemma text_fields_values:
  "map text_of b = map Some vs \<Longrightarrow> text_fields b = Inr vs"
proof (induction b arbitrary: vs)
  case Nil then show ?case by simp
next
  case (Cons n b)
  then obtain v vs' where vs: "vs = v # vs'" "text_of n = Some v" "map text_of b = map Some vs'"
    by (cases vs) auto
  from Cons.IH[OF vs(3)] vs(1,2) show ?case by (simp add: subscript_text_of)
qed

lemma text_fields_no_text:
  "\<not> list_all (\<lambda>n. text_of n \<noteq> None) b \<Longrightarrow>
   text_fields b = Inl (KeyError ''text'') \<or> text_fields b = Inl TypeError"
proof (induction b)
  case Nil then show ?case by simp
next
  case (Cons n b)
  show ?case
  proof (cases "text_of n")
    case None
    then show ?thesis by (simp add: subscript_text_of)
  next
    case (Some v)
    with Cons.prems have "\<not> list_all (\<lambda>n. text_of n \<noteq> None) b" by simp
    from Cons.IH[OF this] Some show ?thesis by (auto simp: subscript_text_of)
  qed
qed

lemma str_items_is_str:
  "str_items xs = (if list_all is_str xs then Some (map str_of xs) else None)"
proof (induction xs)
  case Nil then show ?case by simp
next
  case (Cons x xs)
  then show ?case by (cases x) simp_all
qed

lemma py_join_is_str:
  "py_join sep xs = (if list_all is_str xs then Inr (join sep (map str_of xs)) else Inl TypeError)"
  by (simp add: py_join_def str_items_is_str)

lemma category_text_values:
  assumes "map text_of (dict_get data c) = map Some vs"
  shows "category_text data c =
           (if list_all is_str vs then Inr (join newline (map str_of vs)) else Inl TypeError)"
  using text_fields_values[OF assms] by (simp add: category_text_def py_join_is_str)

lemma category_text_no_text:
  assumes "\<not> list_all (\<lambda>n. text_of n \<noteq> None) (dict_get data c)"
  shows "category_text data c = Inl (KeyError ''text'') \<or> category_text data c = Inl TypeError"
  using text_fields_no_text[OF assms] by (auto simp: category_text_def)

lemma notam_text_values:
  assumes "map text_of (dict_get data ''notam'') = map Some vs"
  shows "notam_text loads data =
           (if list_all is_str (map (entry_of loads) vs)
            then Inr (join (newline @ newline) (map str_of (map (entry_of loads) vs)))
            else Inl TypeError)"
  using notam_loop_entries[OF assms, of loads "[]"] by (simp add: notam_text_def py_join_is_str)

lemma notam_text_no_text:
  assumes "\<not> list_all (\<lambda>n. text_of n \<noteq> None) (dict_get data ''notam'')"
  shows "notam_text loads data = Inl (KeyError ''text'') \<or> notam_text loads data = Inl TypeError"
  using notam_loop_no_text[OF assms, of loads "[]"] by (auto simp: notam_text_def)





subsection \<open>The batch\<close>

lemma process_batch_results:
  "results (process_batch net loads n codes st) =
     results st @ concat (map (\<lambda>(i, c). rows_of (process_icao net loads i c)) (enumerate n codes))"
proof (induction codes arbitrary: n st)
  case Nil then show ?case by simp
next
  case (Cons icao codes)
  show ?case by (cases "process_icao net loads n icao") (simp_all add: Cons.IH)
qed

lemma process_batch_warnings:
  "warnings (process_batch net loads n codes st) =
     warnings st @ concat (map (\<lambda>(i, c). warnings_of c (process_icao net loads i c)) (enumerate n codes))"
proof (induction codes arbitrary: n st)
  case Nil then show ?case by simp
next
  case (Cons icao codes)
  show ?case by (cases "process_icao net loads n icao") (simp_all add: Cons.IH)
qed

lemma process_batch_count:
  "length (results (process_batch net loads n codes st)) + length (warnings (process_batch net loads n codes st))
     = length (results st) + length (warnings st) + length codes"
proof (induction codes arbitrary: n st)
  case Nil then show ?case by simp
next
  case (Cons icao codes)
  show ?case by (cases "process_icao net loads n icao") (simp_all add: Cons.IH)
qed

lemma process_batch_append:
  "process_batch net loads n (xs @ ys) st = process_batch net loads (n + length xs) ys (process_batch net loads n xs st)"
  by (induction xs arbitrary: n st) simp_all

lemma process_icao_code: "process_icao net loads n icao = Inr row \<Longrightarrow> ICAO row = icao"
  by (auto simp: process_icao_def split: sum.splits)

lemma example_CYYC:
  "process_icao example_network example_decoder n ''CYYC'' =
     Inr \<lparr>ICAO = ''CYYC'', METAR = ''M1'' @ newline @ ''M2'', TAF = ''T1'',
          NOTAMs = ''N1'' @ newline @ newline @ ''N2''\<rparr>"
  by (simp add: process_icao_def get_cfps_data_def example_network_def example_decoder_def
        query_params_def params_def categories_def organize_def add_item_def
        category_text_def notam_text_def dict_get_def py_join_def notam_entry_def notam_try_def)

lemma example_ZZZZ:
  "process_icao example_network example_decoder n ''ZZZZ'' = Inl (HTTPError 404)"
  by (simp add: process_icao_def get_cfps_data_def example_network_def
        query_params_def params_def categories_def)

subsection \<open>The list of codes\<close>

lemma map_of_zip_absent: "u \<notin> set xs \<Longrightarrow> map_of (zip xs ys) u = None"
  by (auto simp: map_of_eq_None_iff dest: set_zip_leftD)

lemma map_of_zip_range: "map_of (zip xs ys) c = Some u \<Longrightarrow> u \<in> set ys"
  by (auto dest: map_of_SomeD set_zip_rightD)

lemma uppercase_not_lowercase: "u \<in> set ascii_uppercase \<Longrightarrow> u \<notin> set ascii_lowercase"
  by (auto simp: ascii_uppercase_def ascii_lowercase_def)

lemma upper_char_idem: "upper_char (upper_char c) = upper_char c"
proof (cases "map_of (zip ascii_lowercase ascii_uppercase) c")
  case None
  then show ?thesis by (simp add: upper_char_def)
next
  case (Some u)
  then have "u \<in> set ascii_uppercase" by (rule map_of_zip_range)
  then have "u \<notin> set ascii_lowercase" by (rule uppercase_not_lowercase)
  then have "map_of (zip ascii_lowercase ascii_uppercase) u = None" by (rule map_of_zip_absent)
  with Some show ?thesis by (simp add: upper_char_def)
qed

lemma upper_idem: "upper (upper s) = upper s"
  by (simp add: upper_def upper_char_idem)

lemma set_strip: "set (strip s) \<subseteq> set s"
proof -
  have "set (strip s) = set (dropWhile is_space (rev (dropWhile is_space s)))"
    by (simp add: strip_def)
  also have "\<dots> \<subseteq> set (rev (dropWhile is_space s))"
    by (auto dest: set_dropWhileD)
  also have "\<dots> \<subseteq> set s"
    by (auto dest: set_dropWhileD)
  finally show ?thesis .
qed

lemma upper_strip_upper: "upper (strip (upper s)) = strip (upper s)"
proof -
  have "upper_char c = c" if "c \<in> set (strip (upper s))" for c
  proof -
    from that set_strip have "c \<in> set (upper s)" by blast
    then show ?thesis by (auto simp: upper_def upper_char_idem)
  qed
  then show ?thesis
    unfolding upper_def[of "strip (upper s)"] by (simp add: map_idI)
qed

lemma direct_codes_upper: "c \<in> set (direct_codes text_input) \<Longrightarrow> upper c = c"
  by (auto simp: direct_codes_def upper_strip_upper split: if_splits)

lemma determine_icao_list_direct:
  "icao_list (determine_icao_list text_input None) = direct_codes text_input"
  by (simp add: determine_icao_list_def direct_codes_def Let_def)

lemma determine_missing_column:
  assumes "read_file f = DataFrame df" and "map_of df ''ICAO'' = None"
  shows "determine_icao_list text_input (Some f)
           = \<lparr>icao_list = direct_codes text_input, errors = [MissingICAOColumn]\<rparr>"
  using assms by (simp add: determine_icao_list_def direct_codes_def Let_def)

lemma determine_no_upload:
  "determine_icao_list text_input None = \<lparr>icao_list = direct_codes text_input, errors = []\<rparr>"
  by (simp add: determine_icao_list_def direct_codes_def Let_def)

subsection \<open>The claims\<close>

text \<open>
  C4. For every list-valued parameter the query list holds one pair per element of the
  list, in order, between the pairs of the parameters before it and those after it. For
  the parameters of \<open>get_cfps_data\<close> the query is the site, the eight categories as
  eight pairs under \<open>alpha\<close>, the NOTAM choice and the token; the comma-joined value
  is not among the pairs.
\<close>

theorem query_params_repeated_pairs:
  "build_query (before @ (key, Multi vs) # after) [] =
       build_query before [] @ map (Pair key) vs @ build_query after []
   \<and> query_params icao =
       [(''site'', icao),
        (''alpha'', ''sigmet''), (''alpha'', ''airmet''), (''alpha'', ''notam''),
        (''alpha'', ''metar''), (''alpha'', ''taf''), (''alpha'', ''pirep''),
        (''alpha'', ''upperwind''), (''alpha'', ''space_weather''),
        (''notam_choice'', ''default''),
        (''_'', ''1756244240291'')]
   \<and> filter (\<lambda>kv. fst kv = ''alpha'') (query_params icao) = map (Pair ''alpha'') categories
   \<and> (''alpha'', join '','' categories) \<notin> set (query_params icao)"
  by (simp add: build_query_concat query_params_def params_def categories_def)

text \<open>
  C3 (as amended). For a response whose \<open>data\<close> is a list of objects, each with a \<open>type\<close>
  field whose value is hashable (a string, a number, a boolean or null), the organizing
  loop returns a dict in which every record is in the bucket that its \<open>type\<close> names, every
  bucket holds only records of its type, the keys are distinct, and the records of all
  buckets together are the records of the response, as multisets: none is dropped, none is
  duplicated. A \<open>type\<close> that is a list or an object cannot be a key of the dict, and the
  loop raises \<open>TypeError\<close> on it, as the counterexample shows.
\<close>

theorem organize_buckets_every_record:
  assumes "map_of kvs ''data'' = Some (JList items)" and "list_all typed_item items"
  shows "\<exists>org. organize (JDict kvs) = Inr org
           \<and> (\<forall>item \<in> set items. \<exists>k. item_key item = Some k \<and> item \<in> set (bucket org k))
           \<and> (\<forall>k. \<forall>item \<in> set (bucket org k). item_key item = Some k)
           \<and> distinct (map fst org)
           \<and> mset (concat (map snd org)) = mset items"
proof -
  from organize_list[OF assms] obtain org where o: "organize (JDict kvs) = Inr org"
    "distinct (map fst org)" "\<And>k. bucket org k = filter (\<lambda>item. item_key item = Some k) items"
    "mset (concat (map snd org)) = mset items"
    by blast
  have "\<exists>k. item_key item = Some k \<and> item \<in> set (bucket org k)" if "item \<in> set items" for item
  proof -
    from assms(2) that have "typed_item item" by (simp add: list_all_iff)
    then obtain k where "item_key item = Some k" by (auto simp: typed_item_key)
    with that show ?thesis by (auto simp: o(3))
  qed
  with o show ?thesis by auto
qed

theorem organize_buckets_every_record_witness:
  "map_of [(''data'', JList example_items)] ''data'' = Some (JList example_items)
   \<and> list_all typed_item example_items
   \<and> (\<exists>org. organize (JDict [(''data'', JList example_items)]) = Inr org
           \<and> (\<forall>item \<in> set example_items. \<exists>k. item_key item = Some k \<and> item \<in> set (bucket org k))
           \<and> (\<forall>k. \<forall>item \<in> set (bucket org k). item_key item = Some k)
           \<and> distinct (map fst org)
           \<and> mset (concat (map snd org)) = mset example_items)"
proof -
  have h1: "map_of [(''data'', JList example_items)] ''data'' = Some (JList example_items)" by simp
  have h2: "list_all typed_item example_items" by (simp add: example_items_def)
  from organize_buckets_every_record[OF h1 h2] h1 h2 show ?thesis by blast
qed

theorem organize_unhashable_type_counterexample:
  "spec_well_formed (JDict [(''data'', JList [JDict [(''type'', JList [])]])])
   \<and> organize (JDict [(''data'', JList [JDict [(''type'', JList [])]])]) = Inl TypeError"
  by (simp add: organize_def)

text \<open>
  C10. When the organizing loop returns for a response whose \<open>data\<close> is the list \<open>items\<close>,
  the bucket of every key is the sublist of \<open>items\<close> with that key, in the order of
  \<open>items\<close>; so is what \<open>data.get(category, [])\<close> hands to the text extraction. The
  joined text of a category is therefore the join, by a newline, of the texts of the items
  of that category in the order of \<open>items\<close>, and the NOTAM text the join, by two
  newlines, of the entries of the \<open>notam\<close> items in the order of \<open>items\<close>; where an item
  of the category has no \<open>text\<close>, or a text or entry is no string, no text is produced and
  the extraction raises.
\<close>

theorem organize_keeps_order:
  assumes "map_of kvs ''data'' = Some (JList items)" and "organize (JDict kvs) = Inr org"
  shows "bucket org k = filter (\<lambda>item. item_key item = Some k) items
       \<and> dict_get org c = filter (\<lambda>item. item_key item = Some (KStr c)) items
       \<and> (\<forall>vs. map text_of (filter (\<lambda>item. item_key item = Some (KStr c)) items) = map Some vs
             \<longrightarrow> category_text org c =
                   (if list_all is_str vs then Inr (join newline (map str_of vs)) else Inl TypeError))
       \<and> (\<not> list_all (\<lambda>n. text_of n \<noteq> None) (filter (\<lambda>item. item_key item = Some (KStr c)) items)
             \<longrightarrow> category_text org c = Inl (KeyError ''text'') \<or> category_text org c = Inl TypeError)
       \<and> (\<forall>vs. map text_of (filter (\<lambda>item. item_key item = Some (KStr ''notam'')) items) = map Some vs
             \<longrightarrow> notam_text loads org =
                   (if list_all is_str (map (entry_of loads) vs)
                    then Inr (join (newline @ newline) (map str_of (map (entry_of loads) vs)))
                    else Inl TypeError))
       \<and> (\<not> list_all (\<lambda>n. text_of n \<noteq> None) (filter (\<lambda>item. item_key item = Some (KStr ''notam'')) items)
             \<longrightarrow> notam_text loads org = Inl (KeyError ''text'') \<or> notam_text loads org = Inl TypeError)"
proof -
  from assms(2) have "accepted_shape (JDict kvs)"
    using organize_fails_iff[of "JDict kvs"] by auto
  with assms(1) have "list_all typed_item items" by simp
  from organize_list[OF assms(1) this] assms(2)
  have b: "\<And>k. bucket org k = filter (\<lambda>item. item_key item = Some k) items" by auto
  then have g: "\<And>c. dict_get org c = filter (\<lambda>item. item_key item = Some (KStr c)) items"
    by (simp add: dict_get_def bucket_def)
  show ?thesis
  proof (intro conjI allI impI)
    show "bucket org k = filter (\<lambda>item. item_key item = Some k) items" by (rule b)
    show "dict_get org c = filter (\<lambda>item. item_key item = Some (KStr c)) items" by (rule g)
    show "category_text org c =
            (if list_all is_str vs then Inr (join newline (map str_of vs)) else Inl TypeError)"
      if "map text_of (filter (\<lambda>item. item_key item = Some (KStr c)) items) = map Some vs" for vs
      using that category_text_values[of org c vs] by (simp add: g)
    show "category_text org c = Inl (KeyError ''text'') \<or> category_text org c = Inl TypeError"
      if "\<not> list_all (\<lambda>n. text_of n \<noteq> None) (filter (\<lambda>item. item_key item = Some (KStr c)) items)"
      using that category_text_no_text[of org c] by (simp add: g)
    show "notam_text loads org =
            (if list_all is_str (map (entry_of loads) vs)
             then Inr (join (newline @ newline) (map str_of (map (entry_of loads) vs)))
             else Inl TypeError)"
      if "map text_of (filter (\<lambda>item. item_key item = Some (KStr ''notam'')) items) = map Some vs" for vs
      using that notam_text_values[of org vs loads] by (simp add: g)
    show "notam_text loads org = Inl (KeyError ''text'') \<or> notam_text loads org = Inl TypeError"
      if "\<not> list_all (\<lambda>n. text_of n \<noteq> None) (filter (\<lambda>item. item_key item = Some (KStr ''notam'')) items)"
      using that notam_text_no_text[of org loads] by (simp add: g)
  qed
qed

theorem organize_keeps_order_witness:
  "map_of [(''data'', JList example_items)] ''data'' = Some (JList example_items)
   \<and> organize (JDict [(''data'', JList example_items)]) = Inr example_organized
   \<and> dict_get example_organized ''metar''
     = filter (\<lambda>item. item_key item = Some (KStr ''metar'')) example_items
   \<and> filter (\<lambda>item. item_key item = Some (KStr ''metar'')) example_items
     = [JDict [(''type'', JStr ''metar''), (''text'', JStr ''M1'')],
        JDict [(''type'', JStr ''metar''), (''text'', JStr ''M2'')]]
   \<and> category_text example_organized ''metar'' = Inr (''M1'' @ newline @ ''M2'')
   \<and> category_text example_organized ''taf'' = Inr ''T1''
   \<and> notam_text example_decoder example_organized = Inr (''N1'' @ newline @ newline @ ''N2'')"
proof -
  have h1: "map_of [(''data'', JList example_items)] ''data'' = Some (JList example_items)" by simp
  have f: "filter (\<lambda>item. item_key item = Some (KStr ''metar'')) example_items
     = [JDict [(''type'', JStr ''metar''), (''text'', JStr ''M1'')],
        JDict [(''type'', JStr ''metar''), (''text'', JStr ''M2'')]]"
    by (simp add: example_items_def item_key_def)
  have fm: "map text_of (filter (\<lambda>item. item_key item = Some (KStr ''metar'')) example_items)
              = map Some [JStr ''M1'', JStr ''M2'']"
    by (simp add: f)
  have ft: "map text_of (filter (\<lambda>item. item_key item = Some (KStr ''taf'')) example_items)
              = map Some [JStr ''T1'']"
    by (simp add: example_items_def item_key_def)
  have fn: "map text_of (filter (\<lambda>item. item_key item = Some (KStr ''notam'')) example_items)
              = map Some [JStr ''N1'', JStr ''N2'']"
    by (simp add: example_items_def item_key_def)
  have d: "example_decoder ''N1'' = None" "example_decoder ''N2'' = None"
    by (simp_all add: example_decoder_def)
  note t = organize_keeps_order[OF h1 organize_example_items, of "KStr ''metar''" "''metar''" example_decoder]
  note u = organize_keeps_order[OF h1 organize_example_items, of "KStr ''taf''" "''taf''" example_decoder]
  have g: "dict_get example_organized ''metar''
     = filter (\<lambda>item. item_key item = Some (KStr ''metar'')) example_items"
    by (rule t[THEN conjunct2, THEN conjunct1])
  have c1: "category_text example_organized ''metar'' = Inr (''M1'' @ newline @ ''M2'')"
    using t[THEN conjunct2, THEN conjunct2, THEN conjunct1, rule_format, OF fm] by simp
  have c2: "category_text example_organized ''taf'' = Inr ''T1''"
    using u[THEN conjunct2, THEN conjunct2, THEN conjunct1, rule_format, OF ft] by simp
  have c3: "notam_text example_decoder example_organized = Inr (''N1'' @ newline @ newline @ ''N2'')"
    using t[THEN conjunct2, THEN conjunct2, THEN conjunct2, THEN conjunct2, THEN conjunct1,
            rule_format, OF fn] by (simp add: d)
  from h1 organize_example_items g f c1 c2 c3 show ?thesis by simp
qed

text \<open>
  C5 (as amended). \<open>get_cfps_data\<close> fails exactly when no response is obtained, or the
  status code is from 400 to 599, or the body is not valid JSON, or the decoded body is
  not of the accepted shape: an object whose \<open>data\<close> is a list of objects, each with a
  hashable \<open>type\<close>, or an empty object, or an empty string. Otherwise it returns the
  organized dict. The exception of a failure is that of the request, of the status, of the
  decoder, or a \<open>TypeError\<close> or \<open>KeyError\<close> of the organizing loop. The counterexample
  gives a body without a \<open>data\<close> list on which the fetch succeeds, and a body whose
  elements all carry a \<open>type\<close> on which it fails.
\<close>

theorem get_cfps_data_fails_exactly_when:
  "((\<exists>e. get_cfps_data net loads n icao = Inl e) = fetch_failure loads (net n url (query_params icao)))
   \<and> ((\<exists>org. get_cfps_data net loads n icao = Inr org) = (\<not> fetch_failure loads (net n url (query_params icao))))
   \<and> (\<forall>status body data. net n url (query_params icao) = Response status body \<and> \<not> status_failure status
         \<and> loads body = Some data \<and> accepted_shape data
         \<longrightarrow> (\<exists>org. get_cfps_data net loads n icao = Inr org \<and> organize data = Inr org))
   \<and> (\<forall>e. get_cfps_data net loads n icao = Inl e
         \<longrightarrow> e = RequestException \<or> (\<exists>status. e = HTTPError status \<and> status_failure status)
             \<or> e = JSONDecodeError \<or> e = TypeError \<or> e = KeyError ''data'' \<or> e = KeyError ''type'')"
proof -
  have a: "(\<exists>e. get_cfps_data net loads n icao = Inl e) = fetch_failure loads (net n url (query_params icao))"
    by (rule get_cfps_data_fails_iff)
  have b: "(\<exists>org. get_cfps_data net loads n icao = Inr org) = (\<not> fetch_failure loads (net n url (query_params icao)))"
    unfolding a[symmetric] by (cases "get_cfps_data net loads n icao") simp_all
  have c: "\<exists>org. get_cfps_data net loads n icao = Inr org \<and> organize data = Inr org"
    if "net n url (query_params icao) = Response status body" "\<not> status_failure status"
       "loads body = Some data" "accepted_shape data" for status body data
  proof -
    from that organize_fails_iff[of data] obtain org where "organize data = Inr org"
      by (cases "organize data") auto
    with that show ?thesis by (simp add: get_cfps_data_def status_failure_def)
  qed
  have d: "e = RequestException \<or> (\<exists>status. e = HTTPError status \<and> status_failure status)
             \<or> e = JSONDecodeError \<or> e = TypeError \<or> e = KeyError ''data'' \<or> e = KeyError ''type''"
    if "get_cfps_data net loads n icao = Inl e" for e
    using that by (rule get_cfps_data_error_kind)
  from a b c d show ?thesis by blast
qed

theorem get_cfps_data_fails_exactly_when_witness:
  "get_cfps_data example_network example_decoder 0 ''ZZZZ'' = Inl (HTTPError 404)
   \<and> fetch_failure example_decoder (example_network 0 url (query_params ''ZZZZ''))
   \<and> \<not> fetch_failure example_decoder (example_network 0 url (query_params ''CYYC''))
   \<and> (\<exists>org. get_cfps_data example_network example_decoder 0 ''CYYC'' = Inr org)"
  using get_cfps_data_fails_exactly_when[of example_network example_decoder 0 "''ZZZZ''"]
        get_cfps_data_fails_exactly_when[of example_network example_decoder 0 "''CYYC''"]
  by (simp add: example_network_def example_decoder_def query_params_def params_def categories_def
        status_failure_def get_cfps_data_def)

theorem get_cfps_data_fails_counterexample:
  \<open>example_network 0 url (query_params ''CYEG'') = Response 200 ''{"data":{}}''
   \<and> example_decoder ''{"data":{}}'' = Some (JDict [(''data'', JDict [])])
   \<and> spec_fetch_failure 200 (Some (JDict [(''data'', JDict [])]))
   \<and> get_cfps_data example_network example_decoder 0 ''CYEG'' = Inr []
   \<and> example_network 0 url (query_params ''CYOW'') = Response 200 ''{"data":[{"type":[]}]}''
   \<and> example_decoder ''{"data":[{"type":[]}]}'' = Some (JDict [(''data'', JList [JDict [(''type'', JList [])]])])
   \<and> \<not> spec_fetch_failure 200 (Some (JDict [(''data'', JList [JDict [(''type'', JList [])]])]))
   \<and> get_cfps_data example_network example_decoder 0 ''CYOW'' = Inl TypeError\<close>
  by (simp add: example_network_def example_decoder_def query_params_def params_def categories_def
        status_failure_def get_cfps_data_def spec_fetch_failure_def organize_def)




text \<open>
  C9. When the \<open>text\<close> of a NOTAM record decodes to a value that is not an object (a list,
  a number, a string, a boolean, null), the body of the \<^verbatim>\<open>try\<close> raises
  \<open>AttributeError\<close> at \<^verbatim>\<open>.get\<close>, the handler swallows it, and the entry is the original
  text.
\<close>

theorem notam_entry_non_object:
  assumes "subscript n ''text'' = Inr (JStr t)" and "loads t = Some v" and "\<not> is_object v"
  shows "notam_try loads n = Inl AttributeError \<and> notam_entry loads n = Inr (JStr t)"
proof -
  from assms(3) have "py_get v ''raw'' (JStr []) = Inl AttributeError" by (cases v) simp_all
  with assms(1,2) have "notam_try loads n = Inl AttributeError" by (simp add: notam_try_text)
  with assms(1) show ?thesis by (simp add: notam_entry_def)
qed

theorem notam_entry_non_object_witness:
  \<open>subscript (JDict [(''type'', JStr ''notam''), (''text'', JStr ''[1]'')]) ''text'' = Inr (JStr ''[1]'')
   \<and> example_decoder ''[1]'' = Some (JList [JInt 1]) \<and> \<not> is_object (JList [JInt 1])
   \<and> notam_try example_decoder (JDict [(''type'', JStr ''notam''), (''text'', JStr ''[1]'')]) = Inl AttributeError
   \<and> notam_entry example_decoder (JDict [(''type'', JStr ''notam''), (''text'', JStr ''[1]'')]) = Inr (JStr ''[1]'')
   \<and> example_decoder ''17'' = Some (JInt 17) \<and> \<not> is_object (JInt 17)
   \<and> notam_entry example_decoder (JDict [(''type'', JStr ''notam''), (''text'', JStr ''17'')]) = Inr (JStr ''17'')
   \<and> example_decoder ''"RWY"'' = Some (JStr ''RWY'') \<and> \<not> is_object (JStr ''RWY'')
   \<and> notam_entry example_decoder (JDict [(''type'', JStr ''notam''), (''text'', JStr ''"RWY"'')]) = Inr (JStr ''"RWY"'')\<close>
proof -
  have h1: "subscript (JDict [(''type'', JStr ''notam''), (''text'', JStr ''[1]'')]) ''text'' = Inr (JStr ''[1]'')"
    by simp
  have d1: "example_decoder ''[1]'' = Some (JList [JInt 1])" by (simp add: example_decoder_def)
  have o1: "\<not> is_object (JList [JInt 1])" by simp
  have h2: "subscript (JDict [(''type'', JStr ''notam''), (''text'', JStr ''17'')]) ''text'' = Inr (JStr ''17'')"
    by simp
  have d2: "example_decoder ''17'' = Some (JInt 17)" by (simp add: example_decoder_def)
  have o2: "\<not> is_object (JInt 17)" by simp
  have h3: \<open>subscript (JDict [(''type'', JStr ''notam''), (''text'', JStr ''"RWY"'')]) ''text'' = Inr (JStr ''"RWY"'')\<close>
    by simp
  have d3: \<open>example_decoder ''"RWY"'' = Some (JStr ''RWY'')\<close> by (simp add: example_decoder_def)
  have o3: "\<not> is_object (JStr ''RWY'')" by simp
  from notam_entry_non_object[where loads = example_decoder, OF h1 d1 o1]
       notam_entry_non_object[where loads = example_decoder, OF h2 d2 o2]
       notam_entry_non_object[where loads = example_decoder, OF h3 d3 o3] h1 d1 o1 d2 o2 d3 o3
  show ?thesis by blast
qed




text \<open>
  C2. For every list of codes, the rows of the batch are the rows of the codes whose
  processing succeeds, one row each, in the order of the list, and the warnings are the
  failures of the other codes, one warning each with the code and its exception; every
  code gives a row or a warning, so a failure does not stop the loop, which goes on with
  the codes after it; the row of a code carries that code. The outcome of the code at
  position \<open>i\<close> depends on the \<open>i\<close>-th request only.
\<close>

theorem process_batch_skips_failures:
  "results (process_batch net loads n codes st) =
     results st @ concat (map (\<lambda>(i, c). rows_of (process_icao net loads i c)) (enumerate n codes))
   \<and> warnings (process_batch net loads n codes st) =
     warnings st @ concat (map (\<lambda>(i, c). warnings_of c (process_icao net loads i c)) (enumerate n codes))
   \<and> length (results (process_batch net loads n codes st)) + length (warnings (process_batch net loads n codes st))
     = length (results st) + length (warnings st) + length codes
   \<and> process_batch net loads n (codes @ rest) st =
       process_batch net loads (n + length codes) rest (process_batch net loads n codes st)
   \<and> (\<forall>row. process_icao net loads i c = Inr row \<longrightarrow> ICAO row = c)"
proof (intro conjI allI impI)
  show "results (process_batch net loads n codes st) =
     results st @ concat (map (\<lambda>(i, c). rows_of (process_icao net loads i c)) (enumerate n codes))"
    by (rule process_batch_results)
  show "warnings (process_batch net loads n codes st) =
     warnings st @ concat (map (\<lambda>(i, c). warnings_of c (process_icao net loads i c)) (enumerate n codes))"
    by (rule process_batch_warnings)
  show "length (results (process_batch net loads n codes st)) + length (warnings (process_batch net loads n codes st))
     = length (results st) + length (warnings st) + length codes"
    by (rule process_batch_count)
  show "process_batch net loads n (codes @ rest) st =
       process_batch net loads (n + length codes) rest (process_batch net loads n codes st)"
    by (rule process_batch_append)
  show "ICAO row = c" if "process_icao net loads i c = Inr row" for row
    using that by (rule process_icao_code)
qed

theorem process_batch_skips_failures_witness:
  "process_batch example_network example_decoder 0 [''CYYC'', ''ZZZZ''] \<lparr>results = [], warnings = []\<rparr>
     = \<lparr>results = [\<lparr>ICAO = ''CYYC'', METAR = ''M1'' @ newline @ ''M2'', TAF = ''T1'',
                      NOTAMs = ''N1'' @ newline @ newline @ ''N2''\<rparr>],
        warnings = [(''ZZZZ'', HTTPError 404)]\<rparr>
   \<and> results (process_batch example_network example_decoder 0 [''ZZZZ'', ''CYYC'', ''CYYC''] \<lparr>results = [], warnings = []\<rparr>)
     = [\<lparr>ICAO = ''CYYC'', METAR = ''M1'' @ newline @ ''M2'', TAF = ''T1'',
          NOTAMs = ''N1'' @ newline @ newline @ ''N2''\<rparr>,
        \<lparr>ICAO = ''CYYC'', METAR = ''M1'' @ newline @ ''M2'', TAF = ''T1'',
          NOTAMs = ''N1'' @ newline @ newline @ ''N2''\<rparr>]"
proof -
  have e: "enumerate 0 [''CYYC'', ''ZZZZ''] = [(0, ''CYYC''), (1, ''ZZZZ'')]"
          "enumerate 0 [''ZZZZ'', ''CYYC'', ''CYYC''] = [(0, ''ZZZZ''), (1, ''CYYC''), (2, ''CYYC'')]"
    by (simp_all add: enumerate_eq_zip upt_rec)
  have "results (process_batch example_network example_decoder 0 [''CYYC'', ''ZZZZ''] \<lparr>results = [], warnings = []\<rparr>)
         = [\<lparr>ICAO = ''CYYC'', METAR = ''M1'' @ newline @ ''M2'', TAF = ''T1'',
                      NOTAMs = ''N1'' @ newline @ newline @ ''N2''\<rparr>]"
       "warnings (process_batch example_network example_decoder 0 [''CYYC'', ''ZZZZ''] \<lparr>results = [], warnings = []\<rparr>)
         = [(''ZZZZ'', HTTPError 404)]"
       "results (process_batch example_network example_decoder 0 [''ZZZZ'', ''CYYC'', ''CYYC''] \<lparr>results = [], warnings = []\<rparr>)
     = [\<lparr>ICAO = ''CYYC'', METAR = ''M1'' @ newline @ ''M2'', TAF = ''T1'',
          NOTAMs = ''N1'' @ newline @ newline @ ''N2''\<rparr>,
        \<lparr>ICAO = ''CYYC'', METAR = ''M1'' @ newline @ ''M2'', TAF = ''T1'',
          NOTAMs = ''N1'' @ newline @ newline @ ''N2''\<rparr>]"
    using process_batch_skips_failures[of example_network example_decoder 0 "[''CYYC'', ''ZZZZ'']" "\<lparr>results = [], warnings = []\<rparr>"]
          process_batch_skips_failures[of example_network example_decoder 0 "[''ZZZZ'', ''CYYC'', ''CYYC'']" "\<lparr>results = [], warnings = []\<rparr>"]
    by (simp_all add: e example_CYYC example_ZZZZ)
  then show ?thesis
    by (cases "process_batch example_network example_decoder 0 [''CYYC'', ''ZZZZ''] \<lparr>results = [], warnings = []\<rparr>") simp
qed

text \<open>
  C7. With an uploaded table whose \<open>ICAO\<close> column is a text column, the processing list
  is the direct input, upper-cased and stripped (no code when that is empty), followed by
  the cells of the column that are not missing, each upper-cased, in the order of the
  table. Every code of the list is upper-case, the list is as long as its two sources
  together, and every code occurs as often as in the two sources together: nothing is
  deduplicated. Without an upload the list is the direct input alone.
\<close>

theorem icao_list_merges_inputs:
  assumes "read_file f = DataFrame df" and "map_of df ''ICAO'' = Some (TextColumn cells)"
  shows "icao_list (determine_icao_list text_input (Some f))
           = direct_codes text_input @ map upper (dropna cells)
       \<and> icao_list (determine_icao_list text_input None) = direct_codes text_input
       \<and> (\<forall>c \<in> set (icao_list (determine_icao_list text_input (Some f))). upper c = c)
       \<and> length (icao_list (determine_icao_list text_input (Some f)))
           = length (direct_codes text_input) + length (dropna cells)
       \<and> (\<forall>c. count_list (icao_list (determine_icao_list text_input (Some f))) c
             = count_list (direct_codes text_input) c + count_list (map upper (dropna cells)) c)"
proof -
  have l: "icao_list (determine_icao_list text_input (Some f))
           = direct_codes text_input @ map upper (dropna cells)"
    using assms by (simp add: determine_icao_list_def direct_codes_def Let_def)
  have u: "\<forall>c \<in> set (direct_codes text_input @ map upper (dropna cells)). upper c = c"
    by (auto simp: upper_idem dest: direct_codes_upper)
  have n: "length (direct_codes text_input @ map upper (dropna cells))
             = length (direct_codes text_input) + length (dropna cells)"
    by simp
  have m: "\<forall>c. count_list (direct_codes text_input @ map upper (dropna cells)) c
             = count_list (direct_codes text_input) c + count_list (map upper (dropna cells)) c"
    by simp
  from l u n m determine_icao_list_direct[of text_input] show ?thesis
    by (simp only: simp_thms)
qed


theorem icao_list_merges_inputs_witness:
  "read_file example_upload
     = DataFrame [(''Name'', TextColumn [Some ''Calgary'', Some ''Nowhere'', None, Some ''Calgary'']),
                  (''ICAO'', TextColumn [Some ''cyyc'', Some ''zzzz'', None, Some ''CYYC''])]
   \<and> icao_list (determine_icao_list '' cyyc '' (Some example_upload)) = [''CYYC'', ''CYYC'', ''ZZZZ'', ''CYYC'']
   \<and> count_list (icao_list (determine_icao_list '' cyyc '' (Some example_upload))) ''CYYC'' = 3"
proof -
  have h1: "read_file example_upload
     = DataFrame [(''Name'', TextColumn [Some ''Calgary'', Some ''Nowhere'', None, Some ''Calgary'']),
                  (''ICAO'', TextColumn [Some ''cyyc'', Some ''zzzz'', None, Some ''CYYC''])]"
    by (simp add: read_file_def example_upload_def endswith_def)
  have h2: "map_of [(''Name'', TextColumn [Some ''Calgary'', Some ''Nowhere'', None, Some ''Calgary'']),
                  (''ICAO'', TextColumn [Some ''cyyc'', Some ''zzzz'', None, Some ''CYYC''])] ''ICAO''
     = Some (TextColumn [Some ''cyyc'', Some ''zzzz'', None, Some ''CYYC''])"
    by simp
  have d: "direct_codes '' cyyc '' = [''CYYC'']"
    by (simp add: direct_codes_def upper_def upper_char_def ascii_lowercase_def ascii_uppercase_def strip_def is_space_def)
  have c: "map upper (dropna [Some ''cyyc'', Some ''zzzz'', None, Some ''CYYC'']) = [''CYYC'', ''ZZZZ'', ''CYYC'']"
    by (simp add: upper_def upper_char_def ascii_lowercase_def ascii_uppercase_def)
  have l: "icao_list (determine_icao_list '' cyyc '' (Some example_upload))
             = direct_codes '' cyyc '' @ map upper (dropna [Some ''cyyc'', Some ''zzzz'', None, Some ''CYYC''])"
    by (rule icao_list_merges_inputs[OF h1 h2, of "'' cyyc ''", THEN conjunct1])
  show ?thesis unfolding l d c using h1 by simp
qed

text \<open>
  C8. When the uploaded table has no column named \<open>ICAO\<close>, one error is shown, the
  upload adds no code to the list, and the run goes on: the table of results and the
  warnings are those of the run without the upload, and when the direct input gives a
  code the table is the result of the batch on it.
\<close>

theorem missing_icao_column_not_fatal:
  assumes "read_file f = DataFrame df" and "map_of df ''ICAO'' = None"
  shows "errors (determine_icao_list text_input (Some f)) = [MissingICAOColumn]
       \<and> icao_list (determine_icao_list text_input (Some f)) = direct_codes text_input
       \<and> shown_errors (run net loads text_input (Some f)) = [MissingICAOColumn]
       \<and> table (run net loads text_input (Some f)) = table (run net loads text_input None)
       \<and> shown_warnings (run net loads text_input (Some f)) = shown_warnings (run net loads text_input None)
       \<and> (direct_codes text_input \<noteq> [] \<longrightarrow>
            table (run net loads text_input (Some f))
              = Some (results (process_batch net loads 0 (direct_codes text_input) \<lparr>results = [], warnings = []\<rparr>)))"
  by (simp add: run_def determine_missing_column[OF assms] determine_no_upload Let_def)

theorem missing_icao_column_not_fatal_witness:
  "read_file example_upload_no_column = DataFrame [(''Airport'', TextColumn [Some ''cyyc''])]
   \<and> map_of [(''Airport'', TextColumn [Some ''cyyc''])] ''ICAO'' = None
   \<and> run example_network example_decoder ''cyyc'' (Some example_upload_no_column)
      = \<lparr>shown_errors = [MissingICAOColumn], shown_warnings = [],
         table = Some [\<lparr>ICAO = ''CYYC'', METAR = ''M1'' @ newline @ ''M2'', TAF = ''T1'',
                         NOTAMs = ''N1'' @ newline @ newline @ ''N2''\<rparr>]\<rparr>"
proof -
  have h1: "read_file example_upload_no_column = DataFrame [(''Airport'', TextColumn [Some ''cyyc''])]"
    by (simp add: read_file_def example_upload_no_column_def endswith_def)
  have h2: "map_of [(''Airport'', TextColumn [Some ''cyyc''])] ''ICAO'' = None" by simp
  have d: "direct_codes ''cyyc'' = [''CYYC'']"
    by (simp add: direct_codes_def upper_def upper_char_def ascii_lowercase_def ascii_uppercase_def strip_def is_space_def)
  have r: "run example_network example_decoder ''cyyc'' None
      = \<lparr>shown_errors = [], shown_warnings = [],
         table = Some [\<lparr>ICAO = ''CYYC'', METAR = ''M1'' @ newline @ ''M2'', TAF = ''T1'',
                         NOTAMs = ''N1'' @ newline @ newline @ ''N2''\<rparr>]\<rparr>"
    by (simp add: run_def determine_no_upload d example_CYYC)
  note t = missing_icao_column_not_fatal[OF h1 h2, of "''cyyc''" example_network example_decoder]
  have "shown_errors (run example_network example_decoder ''cyyc'' (Some example_upload_no_column)) = [MissingICAOColumn]"
    using t by blast
  moreover have "shown_warnings (run example_network example_decoder ''cyyc'' (Some example_upload_no_column)) = []"
    using t r by simp
  moreover have "table (run example_network example_decoder ''cyyc'' (Some example_upload_no_column))
          = Some [\<lparr>ICAO = ''CYYC'', METAR = ''M1'' @ newline @ ''M2'', TAF = ''T1'',
                         NOTAMs = ''N1'' @ newline @ newline @ ''N2''\<rparr>]"
    using t r by simp
  ultimately show ?thesis using h1 h2
    by (cases "run example_network example_decoder ''cyyc'' (Some example_upload_no_column)") simp
qed

end
